theory Spec2Isabelle
  imports Main
begin

section \<open>Python strings\<close>

text \<open>
  A Python \<open>str\<close> is a sequence of code points. The model uses \<open>string\<close>
  (\<open>char list\<close>) and reads every \<open>char\<close> as the code point of the same
  number, so it covers exactly the texts whose code points are below 256; on these,
  the functions below compute what CPython's \<open>str\<close> methods compute.
\<close>

definition is_linebreak :: "char \<Rightarrow> bool" where
  \<comment> \<open>the boundaries of \<open>str.splitlines\<close> below U+0100: LF, VT, FF, CR, FS, GS, RS, NEL\<close>
  "is_linebreak c =
     (c \<in> set [CHR 0x0A, CHR 0x0B, CHR 0x0C, CHR 0x0D, CHR 0x1C, CHR 0x1D, CHR 0x1E, CHR 0x85])"

definition is_space :: "char \<Rightarrow> bool" where
  \<comment> \<open>what \<open>str.strip()\<close> removes below U+0100: TAB..CR, FS..US, space, NEL, NBSP\<close>
  "is_space c =
     (c \<in> set [CHR 0x09, CHR 0x0A, CHR 0x0B, CHR 0x0C, CHR 0x0D, CHR 0x1C, CHR 0x1D, CHR 0x1E,
                CHR 0x1F, CHR 0x20, CHR 0x85, CHR 0xA0])"

fun splitlines_from :: "string \<Rightarrow> string \<Rightarrow> string list" where
  \<comment> \<open>\<open>cur\<close> is the line read so far; CR LF is one boundary; no empty last line\<close>
  "splitlines_from cur [] = (if cur = [] then [] else [cur])"
| "splitlines_from cur (c # cs) =
     (if c = CHR 0x0D then
        (case cs of
           [] \<Rightarrow> [cur]
         | d # ds \<Rightarrow> if d = CHR 0x0A then cur # splitlines_from [] ds
                    else cur # splitlines_from [] (d # ds))
      else if is_linebreak c then cur # splitlines_from [] cs
      else splitlines_from (cur @ [c]) cs)"

definition splitlines :: "string \<Rightarrow> string list" where
  "splitlines text = splitlines_from [] text"

definition strip :: "string \<Rightarrow> string" where
  "strip s = rev (dropWhile is_space (rev (dropWhile is_space s)))"

definition startswith :: "string \<Rightarrow> string \<Rightarrow> bool" where
  "startswith s p = (take (length p) s = p)"

definition is_upper :: "char \<Rightarrow> bool" where
  \<comment> \<open>the code points below U+0100 that \<open>str.lower\<close> changes: A..Z and U+00C0..U+00DE but U+00D7\<close>
  "is_upper c =
     (let n = (of_char c :: nat)
      in (65 \<le> n \<and> n \<le> 90) \<or> (192 \<le> n \<and> n \<le> 222 \<and> n \<noteq> 215))"

definition lower_char :: "char \<Rightarrow> char" where
  "lower_char c = (if is_upper c then char_of ((of_char c :: nat) + 32) else c)"

definition lower :: "string \<Rightarrow> string" where
  "lower s = map lower_char s"

fun join :: "string \<Rightarrow> string list \<Rightarrow> string" where
  "join sep [] = []"
| "join sep [x] = x"
| "join sep (x # y # ys) = x @ sep @ join sep (y # ys)"

section \<open>Block extraction\<close>

text \<open>
  \<open>extract_loop\<close> is the \<open>for\<close> loop of \<open>extract_bash_block\<close> over the remaining
  lines, with the loop's three variables; \<open>break\<close> returns the lines collected so far.
\<close>

fun extract_loop :: "string list \<Rightarrow> bool \<Rightarrow> bool \<Rightarrow> string list \<Rightarrow> string list" where
  "extract_loop [] in_block lang_ok lines = lines"
| "extract_loop (line # rest) in_block lang_ok lines =
     (if startswith line ''```'' then
        (if \<not> in_block then
           (let fence = strip line;
                lang = strip (drop 3 fence)
            in extract_loop rest True
                 (lang = [] \<or> lower lang \<in> {''bash'', ''sh'', ''shell''}) lines)
         else lines)
      else if in_block \<and> lang_ok then extract_loop rest in_block lang_ok (lines @ [line])
      else extract_loop rest in_block lang_ok lines)"

definition extract_bash_block :: "string \<Rightarrow> string" where
  "extract_bash_block text =
     strip (join [CHR 0x0A] (extract_loop (splitlines text) False False []))"

subsection \<open>The extractor as the specification words it\<close>

definition is_fence :: "string \<Rightarrow> bool" where
  \<comment> \<open>a fence marker starting a line\<close>
  "is_fence l = startswith l ''```''"

definition fence_tag :: "string \<Rightarrow> string" where
  \<comment> \<open>the language tag of a fence line: what follows the marker, trimmed\<close>
  "fence_tag l = strip (drop 3 (strip l))"

definition accepted_tag :: "string \<Rightarrow> bool" where
  \<comment> \<open>empty, bash, sh or shell, in any mix of upper and lower case\<close>
  "accepted_tag t = (t = [] \<or> lower t = ''bash'' \<or> lower t = ''sh'' \<or> lower t = ''shell'')"

definition first_block :: "string \<Rightarrow> string" where
  \<comment> \<open>the first fenced block of the text: trimmed inner text when its tag is accepted,
      and no content otherwise (also when the text has no fence)\<close>
  "first_block text =
     (case dropWhile (\<lambda>l. \<not> is_fence l) (splitlines text) of
        [] \<Rightarrow> []
      | fence # body \<Rightarrow>
          if accepted_tag (fence_tag fence)
          then strip (join [CHR 0x0A] (takeWhile (\<lambda>l. \<not> is_fence l) body))
          else [])"

section \<open>Command parsing\<close>

fun parse_loop :: "string list \<Rightarrow> string list \<Rightarrow> string list" where
  "parse_loop [] cmds = cmds"
| "parse_loop (raw # rest) cmds =
     (let line = strip raw
      in if line = [] then parse_loop rest cmds
         else if startswith line ''#'' then parse_loop rest cmds
         else if \<not> startswith line ''git '' then parse_loop rest cmds
         else parse_loop rest (cmds @ [line]))"

definition parse_commands :: "string \<Rightarrow> string list" where
  "parse_commands cmd_block = parse_loop (splitlines cmd_block) []"

subsection \<open>The parser as the specification words it\<close>

definition kept :: "string \<Rightarrow> bool" where
  \<comment> \<open>a trimmed line the parser retains: not empty, not a comment, with the invocation prefix\<close>
  "kept l = (l \<noteq> [] \<and> \<not> startswith l ''#'' \<and> startswith l ''git '')"

section \<open>The environment of a run\<close>

text \<open>
  The program starts processes (always the git executable), asks the model service once,
  and calls two library functions it does not define, \<open>shlex.split\<close> and
  \<open>textwrap.dedent\<close>. These are parameters of the model: a process is a function from
  the state of the world (the repository, the file system) and the argument vector to
  what \<open>subprocess.run\<close> returns and the world afterwards; \<open>shlex.split\<close> raises
  \<open>ValueError\<close> on some strings (\<open>None\<close>); a request to the service returns the
  response's text or raises (\<open>None\<close>). The git executable is assumed to exist, so
  starting a process does not raise; every command the parser returns begins with
  \<open>git\<close> and a space, so git is the program of every process. The instructions and
  the temperature of the request are constants of the source and belong to the service's
  function.
\<close>

record completed =
  returncode :: int
  stdout :: string
  stderr :: string

record 'w env =
  subprocess_run :: "'w \<Rightarrow> string list \<Rightarrow> completed \<times> 'w"
  shlex_split :: "string \<Rightarrow> string list option"
  responses_create :: "'w \<Rightarrow> string \<Rightarrow> string \<Rightarrow> string \<Rightarrow> string option \<times> 'w"
  dedent :: "string \<Rightarrow> string"

text \<open>
  What a run does is recorded in order: text written to the standard output and to the
  standard error stream, processes started, requests sent (model, credential, input).
\<close>

datatype event =
    Print string
  | PrintErr string
  | Spawn "string list"
  | Request string string string

record 'w state =
  world :: 'w
  trace :: "event list"

text \<open>
  A call ends by returning, by \<open>sys.exit\<close> or by an exception nobody catches.
\<close>

datatype stop = SystemExit int | ValueError | ServiceError

definition exit_code :: "stop + 'a \<Rightarrow> int" where
  \<comment> \<open>the exit status of the interpreter: 0 when \<open>main\<close> returns, the argument of
      \<open>sys.exit\<close>, 1 after an uncaught exception\<close>
  "exit_code r = (case r of Inr _ \<Rightarrow> 0 | Inl (SystemExit n) \<Rightarrow> n | Inl _ \<Rightarrow> 1)"

definition emit :: "event \<Rightarrow> 'w state \<Rightarrow> 'w state" where
  "emit e s = s\<lparr>trace := trace s @ [e]\<rparr>"

definition py_print :: "string list \<Rightarrow> string" where
  \<comment> \<open>what \<open>print(*args)\<close> writes: the arguments separated by a space, then a newline\<close>
  "py_print args = join '' '' args @ [CHR 0x0A]"

fun str_nat :: "nat \<Rightarrow> string" where
  "str_nat n =
     (if n < 10 then [char_of (48 + n)] else str_nat (n div 10) @ [char_of (48 + n mod 10)])"

declare str_nat.simps [simp del]

definition str_int :: "int \<Rightarrow> string" where
  \<comment> \<open>the decimal text of an integer, as an f-string formats it\<close>
  "str_int i = (if i < 0 then ''-'' @ str_nat (nat (- i)) else str_nat (nat i))"

section \<open>Running git\<close>

definition run_git :: "'w env \<Rightarrow> string list \<Rightarrow> bool \<Rightarrow> 'w state \<Rightarrow> (stop + string) \<times> 'w state" where
  "run_git E args check s =
     (let (proc, w) = subprocess_run E (world s) (''git'' # args);
          s1 = emit (Spawn (''git'' # args)) (s\<lparr>world := w\<rparr>)
      in if check \<and> returncode proc \<noteq> 0
         then (Inl (SystemExit (returncode proc)),
               emit (PrintErr (py_print
                 [''Error running git '' @ join '' '' args @ '':'' @ [CHR 0x0A] @ stderr proc])) s1)
         else (Inr (stdout proc), s1))"

definition ensure_repo :: "'w env \<Rightarrow> 'w state \<Rightarrow> (stop + unit) \<times> 'w state" where
  "ensure_repo E s =
     (case run_git E [''rev-parse'', ''--is-inside-work-tree''] True s of
        (Inl e, s1) \<Rightarrow> (Inl e, s1)
      | (Inr out, s1) \<Rightarrow>
          if strip out \<noteq> ''true''
          then (Inl (SystemExit 1),
                emit (PrintErr (py_print [''gitmeup must be run inside a git repository.''])) s1)
          else (Inr (), s1))"

definition collect_context ::
  "'w env \<Rightarrow> 'w state \<Rightarrow> (stop + string \<times> string \<times> string) \<times> 'w state" where
  "collect_context E s =
     (case run_git E [''diff'', ''--stat''] True s of
        (Inl e, s1) \<Rightarrow> (Inl e, s1)
      | (Inr diff_stat, s1) \<Rightarrow>
     (case run_git E [''status'', ''--short''] True s1 of
        (Inl e, s2) \<Rightarrow> (Inl e, s2)
      | (Inr status, s2) \<Rightarrow>
     (case run_git E
             [''diff'', ''--'', ''.'', '':(exclude)*.png'', '':(exclude)*.jpg'',
              '':(exclude)*.jpeg'', '':(exclude)*.gif'', '':(exclude)*.svg'',
              '':(exclude)*.webp''] True s2 of
        (Inl e, s3) \<Rightarrow> (Inl e, s3)
      | (Inr diff, s3) \<Rightarrow> (Inr (diff_stat, status, diff), s3))))"

definition build_user_prompt :: "'w env \<Rightarrow> string \<Rightarrow> string \<Rightarrow> string \<Rightarrow> string" where
  "build_user_prompt E diff_stat status diff =
     dedent E
       (''\<newline>    Here are the current git changes.\<newline>\<newline>    === git diff --stat ===\<newline>    ''
        @ (if diff_stat = [] then ''(no diff stat output)'' else diff_stat)
        @ ''\<newline>\<newline>    === git status --short ===\<newline>    ''
        @ (if status = [] then ''(no status output)'' else status)
        @ ''\<newline>\<newline>    === git diff (images excluded) ===\<newline>    ''
        @ (if diff = [] then ''(no diff output)'' else diff)
        @ ''\<newline>\<newline>    Based on this, generate atomic Conventional Commits and matching git add/rm/mv + git commit commands as instructed.\<newline>    '')"

definition call_llm ::
  "'w env \<Rightarrow> string \<Rightarrow> string \<Rightarrow> string \<Rightarrow> 'w state \<Rightarrow> (stop + string) \<times> 'w state" where
  "call_llm E model api_key user_prompt s =
     (let (resp, w) = responses_create E (world s) model api_key user_prompt;
          s1 = emit (Request model api_key user_prompt) (s\<lparr>world := w\<rparr>)
      in case resp of
           None \<Rightarrow> (Inl ServiceError, s1)
         | Some output_text \<Rightarrow> (Inr output_text, s1))"

section \<open>Executing the commands\<close>

text \<open>
  \<open>exec_loop\<close> is the second \<open>for\<close> loop of \<open>run_commands\<close>. The child's output goes
  to the terminal and is not read by the program.
\<close>

fun exec_loop :: "'w env \<Rightarrow> string list \<Rightarrow> 'w state \<Rightarrow> (stop + unit) \<times> 'w state" where
  "exec_loop E [] s = (Inr (), s)"
| "exec_loop E (cmd # rest) s =
     (let s1 = emit (Print (py_print [''> '' @ cmd])) s
      in case shlex_split E cmd of
           None \<Rightarrow> (Inl ValueError, s1)
         | Some argv \<Rightarrow>
             (let (proc, w) = subprocess_run E (world s1) argv;
                  s2 = emit (Spawn argv) (s1\<lparr>world := w\<rparr>)
              in if returncode proc \<noteq> 0
                 then (Inl (SystemExit (returncode proc)),
                       emit (PrintErr (py_print
                         [''Command failed with exit code '' @ str_int (returncode proc)
                          @ ''. Aborting.''])) s2)
                 else exec_loop E rest s2))"

definition run_commands ::
  "'w env \<Rightarrow> string list \<Rightarrow> bool \<Rightarrow> 'w state \<Rightarrow> (stop + unit) \<times> 'w state" where
  "run_commands E commands apply s =
     (if commands = []
      then (Inr (), emit (Print (py_print [''gitmeup: no git commands produced by the model.''])) s)
      else
        (let s1 = emit (Print (py_print [''gitmeup proposed commands:\<newline>''])) s;
             s2 = fold (\<lambda>cmd. emit (Print (py_print [cmd]))) commands s1;
             s3 = emit (Print (py_print [])) s2
         in if \<not> apply
            then (Inr (),
                  emit (Print (py_print
                    [''Dry run. Re-run with --apply to execute these commands.''])) s3)
            else
              (case exec_loop E commands (emit (Print (py_print [''Executing commands...''])) s3) of
                 (Inl e, s4) \<Rightarrow> (Inl e, s4)
               | (Inr _, s4) \<Rightarrow>
                   (Inr (), emit (Print (py_print [''\<newline>Commands executed.\<newline>''])) s4))))"

section \<open>The whole run\<close>

record args =
  model :: string
  apply_flag :: bool
  api_key :: "string option"

text \<open>
  \<open>main\<close> after \<open>parse_args\<close>. \<open>request_phase\<close> is its body up to and including
  \<open>call_llm\<close>, \<open>response_phase\<close> the rest, from \<open>extract_bash_block\<close> on.
\<close>

definition request_phase :: "'w env \<Rightarrow> args \<Rightarrow> 'w state \<Rightarrow> (stop + string) \<times> 'w state" where
  "request_phase E a s =
     (case api_key a of
        None \<Rightarrow>
          (Inl (SystemExit 1),
           emit (PrintErr (py_print
             [''Missing OpenAI API key. Set OPENAI_API_KEY or use --api-key.''])) s)
      | Some key \<Rightarrow>
     if key = [] then
          (Inl (SystemExit 1),
           emit (PrintErr (py_print
             [''Missing OpenAI API key. Set OPENAI_API_KEY or use --api-key.''])) s)
     else
     (case ensure_repo E s of
        (Inl e, s1) \<Rightarrow> (Inl e, s1)
      | (Inr _, s1) \<Rightarrow>
     (case run_git E [''status'', ''--porcelain''] True s1 of
        (Inl e, s2) \<Rightarrow> (Inl e, s2)
      | (Inr porcelain, s2) \<Rightarrow>
     if strip porcelain = [] then
          (Inl (SystemExit 0),
           emit (Print (py_print [''Working tree clean. Nothing to commit.''])) s2)
     else
     (case collect_context E s2 of
        (Inl e, s3) \<Rightarrow> (Inl e, s3)
      | (Inr (diff_stat, status, diff), s3) \<Rightarrow>
          call_llm E (model a) key (build_user_prompt E diff_stat status diff) s3))))"

definition response_phase ::
  "'w env \<Rightarrow> args \<Rightarrow> string \<Rightarrow> 'w state \<Rightarrow> (stop + unit) \<times> 'w state" where
  "response_phase E a raw_output s =
     (let bash_block = extract_bash_block raw_output
      in if bash_block = [] then
           (Inl (SystemExit 1),
            emit (Print (py_print [''Raw output:\<newline>'', raw_output]))
              (emit (PrintErr (py_print
                 [''gitmeup: failed to extract bash command block from model output.''])) s))
         else
           (case run_commands E (parse_commands bash_block) (apply_flag a) s of
              (Inl e, s1) \<Rightarrow> (Inl e, s1)
            | (Inr _, s1) \<Rightarrow>
           (case run_git E [''status'', ''-sb''] False
                   (emit (Print (py_print [''\<newline>Final git status:\<newline>''])) s1) of
              (Inl e, s2) \<Rightarrow> (Inl e, s2)
            | (Inr final, s2) \<Rightarrow>
                (Inr (),
                 emit (Print (py_print [''  git log --oneline --graph --decorate -n 10'']))
                   (emit (Print (py_print [''Review your history with:'']))
                      (emit (Print (py_print [final])) s2))))))"

definition main :: "'w env \<Rightarrow> args \<Rightarrow> 'w state \<Rightarrow> (stop + unit) \<times> 'w state" where
  "main E a s =
     (case request_phase E a s of
        (Inl e, s1) \<Rightarrow> (Inl e, s1)
      | (Inr raw_output, s1) \<Rightarrow> response_phase E a raw_output s1)"

section \<open>Reading a run\<close>

fun spawned :: "event list \<Rightarrow> string list list" where
  \<comment> \<open>the argument vectors of the processes started, in order\<close>
  "spawned [] = []"
| "spawned (Spawn argv # es) = argv # spawned es"
| "spawned (e # es) = spawned es"

fun requested :: "event list \<Rightarrow> (string \<times> string \<times> string) list" where
  \<comment> \<open>the requests sent to the model service, in order\<close>
  "requested [] = []"
| "requested (Request m k p # es) = (m, k, p) # requested es"
| "requested (e # es) = requested es"



fun opening_fences :: "bool \<Rightarrow> string list \<Rightarrow> string list" where
  \<comment> \<open>the fence lines that open a block, fences taken in turn as opening and closing;
      the flag says whether a block is open\<close>
  "opening_fences inside [] = []"
| "opening_fences inside (l # ls) =
     (if is_fence l
      then (if inside then opening_fences False ls else l # opening_fences True ls)
      else opening_fences inside ls)"

section \<open>A small environment to run the program in\<close>

text \<open>
  The world is a table from argument vectors to what the process returns (a process not
  in the table succeeds and prints nothing), with the list of the processes run so far.
  The service returns a fixed response. \<open>simple_split_from\<close> cuts a command at spaces,
  as \<open>shlex.split\<close> does on a command with no quote, no backslash and no other blank.
\<close>

definition ok_process :: completed where
  "ok_process = \<lparr>returncode = 0, stdout = [], stderr = []\<rparr>"

type_synonym scripted_world = "(string list \<times> completed) list \<times> string list list"

fun simple_split_from :: "string \<Rightarrow> string \<Rightarrow> string list" where
  "simple_split_from cur [] = (if cur = [] then [] else [cur])"
| "simple_split_from cur (c # cs) =
     (if c = CHR '' ''
      then (if cur = [] then simple_split_from [] cs else cur # simple_split_from [] cs)
      else simple_split_from (cur @ [c]) cs)"

definition scripted_env :: "string option \<Rightarrow> scripted_world env" where
  "scripted_env response =
     \<lparr>subprocess_run = (\<lambda>(answers, started) argv.
          (case map_of answers argv of None \<Rightarrow> ok_process | Some proc \<Rightarrow> proc,
           (answers, started @ [argv]))),
      shlex_split = (\<lambda>cmd. Some (simple_split_from [] cmd)),
      responses_create = (\<lambda>w m k p. (response, w)),
      dedent = (\<lambda>t. t)\<rparr>"

definition dirty_repo :: "(string list \<times> completed) list" where
  \<comment> \<open>inside a work tree with one modified file\<close>
  "dirty_repo =
     [([''git'', ''rev-parse'', ''--is-inside-work-tree''],
         \<lparr>returncode = 0, stdout = ''true\<newline>'', stderr = []\<rparr>),
      ([''git'', ''status'', ''--porcelain''],
         \<lparr>returncode = 0, stdout = '' M a.txt\<newline>'', stderr = []\<rparr>)]"

definition clean_repo :: "(string list \<times> completed) list" where
  \<comment> \<open>inside a work tree with nothing to commit\<close>
  "clean_repo =
     [([''git'', ''rev-parse'', ''--is-inside-work-tree''],
         \<lparr>returncode = 0, stdout = ''true\<newline>'', stderr = []\<rparr>),
      ([''git'', ''status'', ''--porcelain''],
         \<lparr>returncode = 0, stdout = [], stderr = []\<rparr>)]"

definition broken_index :: "(string list \<times> completed) list" where
  \<comment> \<open>inside a work tree whose index git cannot read: the status command fails\<close>
  "broken_index =
     [([''git'', ''rev-parse'', ''--is-inside-work-tree''],
         \<lparr>returncode = 0, stdout = ''true\<newline>'', stderr = []\<rparr>),
      ([''git'', ''status'', ''--porcelain''],
         \<lparr>returncode = 128, stdout = [], stderr = ''fatal: index file corrupt\<newline>''\<rparr>)]"

definition outside_repo :: "(string list \<times> completed) list" where
  \<comment> \<open>outside any repository: what git answers to \<open>rev-parse --is-inside-work-tree\<close> there\<close>
  "outside_repo =
     [([''git'', ''rev-parse'', ''--is-inside-work-tree''],
         \<lparr>returncode = 128, stdout = [],
          stderr = ''fatal: not a git repository (or any of the parent directories): .git\<newline>''\<rparr>)]"


section \<open>The string functions on examples\<close>

lemma splitlines_examples:
  "splitlines [] = []
   \<and> splitlines ''a\<newline>b'' = [''a'', ''b'']
   \<and> splitlines ''a\<newline>b\<newline>'' = [''a'', ''b'']
   \<and> splitlines ''a\<newline>\<newline>b'' = [''a'', [], ''b'']
   \<and> splitlines [CHR ''a'', CHR 0x0D, CHR 0x0A, CHR ''b'', CHR 0x0D, CHR ''c''] = [''a'', ''b'', ''c'']
   \<and> splitlines [CHR ''a'', CHR 0x0A, CHR 0x0D, CHR ''b''] = [''a'', [], ''b'']
   \<and> splitlines [CHR ''a'', CHR 0x0C, CHR ''b'', CHR 0x85, CHR ''c''] = [''a'', ''b'', ''c'']"
  by code_simp

lemma strip_examples:
  "strip ''  git add a  '' = ''git add a''
   \<and> strip [CHR 0x09, CHR ''x'', CHR '' '', CHR ''y'', CHR 0x0D, CHR 0x0A] = ''x y''
   \<and> strip ''   '' = []"
  by code_simp

lemma lower_examples:
  "lower ''BaSh'' = ''bash'' \<and> lower ''Shell-2_[x]'' = ''shell-2_[x]''
   \<and> lower [CHR 0xC9, CHR 0xD7, CHR 0xDF] = [CHR 0xE9, CHR 0xD7, CHR 0xDF]"
  by code_simp

lemma join_examples:
  "join ''\<newline>'' [] = [] \<and> join ''\<newline>'' [''a''] = ''a'' \<and> join '', '' [''a'', ''b'', ''c''] = ''a, b, c''"
  by code_simp

lemma str_int_examples:
  "str_int 0 = ''0'' \<and> str_int 128 = ''128'' \<and> str_int (- 9) = ''-9''"
  by code_simp

section \<open>Properties of the extractor\<close>

lemma strip_Nil: "strip [] = []"
  by (simp add: strip_def)

lemma extract_loop_accepted:
  "extract_loop ls True True acc = acc @ takeWhile (\<lambda>l. \<not> is_fence l) ls"
  by (induction ls arbitrary: acc) (simp_all add: is_fence_def)

lemma extract_loop_rejected:
  "extract_loop ls True False acc = acc"
  by (induction ls) simp_all

lemma extract_loop_inside:
  "extract_loop ls True ok acc =
     (if ok then acc @ takeWhile (\<lambda>l. \<not> is_fence l) ls else acc)"
  by (cases ok) (simp_all add: extract_loop_accepted extract_loop_rejected)

lemma extract_loop_outside:
  "extract_loop ls False ok acc =
     (case dropWhile (\<lambda>l. \<not> is_fence l) ls of
        [] \<Rightarrow> acc
      | fence # body \<Rightarrow> extract_loop body True (accepted_tag (fence_tag fence)) acc)"
  by (induction ls arbitrary: ok)
     (simp_all add: is_fence_def accepted_tag_def fence_tag_def Let_def)

text \<open>
  C1. For every response text, \<open>extract_bash_block\<close> returns the trimmed, newline-joined
  inner lines of the first fenced block when that block's tag is empty, bash, sh or shell
  in any letter case, reading up to the next fence line of any kind and ignoring all that
  follows it; a first block with another tag, and a text with no fence, give no content.
\<close>

theorem extract_bash_block_first_block:
  "extract_bash_block text = first_block text"
proof (cases "dropWhile (\<lambda>l. \<not> is_fence l) (splitlines text)")
  case Nil
  then show ?thesis
    by (simp add: extract_bash_block_def first_block_def extract_loop_outside strip_Nil
        del: dropWhile_eq_Nil_conv)
next
  case (Cons fence body)
  then show ?thesis
    by (simp add: extract_bash_block_def first_block_def extract_loop_outside
        extract_loop_inside strip_Nil)
qed

text \<open>
  Only the first block of the response counts: a bash block that follows a block with
  another tag is not returned, and of two bash blocks the first is.
\<close>

lemma extract_bash_block_examples:
  "extract_bash_block ''```python\<newline>print(1)\<newline>```\<newline>```bash\<newline>git add a\<newline>```'' = []
   \<and> extract_bash_block ''Here:\<newline>```BASH\<newline>git add a\<newline>```\<newline>```sh\<newline>git add b\<newline>```'' = ''git add a''
   \<and> extract_bash_block ''no fence at all'' = []"
  by code_simp

text \<open>
  C10. When the first fence line of the response has an accepted tag and no fence line
  follows it, the extractor returns all the lines after that fence, joined with newline
  and trimmed: no closing fence is needed.
\<close>

theorem extract_bash_block_unclosed:
  assumes "splitlines response = pre @ fence # post"
    and "\<forall>l\<in>set pre. \<not> is_fence l"
    and "is_fence fence"
    and "accepted_tag (fence_tag fence)"
    and "\<forall>l\<in>set post. \<not> is_fence l"
  shows "extract_bash_block response = strip (join [CHR 0x0A] post)"
proof -
  have d: "dropWhile (\<lambda>l. \<not> is_fence l) (splitlines response) = fence # post"
    using assms(1,2,3) by (simp add: dropWhile_append3)
  have t: "takeWhile (\<lambda>l. \<not> is_fence l) post = post"
    using assms(5) by simp
  show ?thesis
    by (simp add: extract_bash_block_def extract_loop_outside d extract_loop_accepted
        assms(4) t)
qed

theorem extract_bash_block_unclosed_witness:
  "extract_bash_block ''ok:\<newline>```sh\<newline>git add a\<newline>git commit -m x\<newline>''
     = ''git add a\<newline>git commit -m x''"
proof -
  have 1: "splitlines ''ok:\<newline>```sh\<newline>git add a\<newline>git commit -m x\<newline>''
      = [''ok:''] @ ''```sh'' # [''git add a'', ''git commit -m x'']"
    by code_simp
  have 2: "\<forall>l\<in>set [''ok:'']. \<not> is_fence l" by code_simp
  have 3: "is_fence ''```sh''" by code_simp
  have 4: "accepted_tag (fence_tag ''```sh'')" by code_simp
  have 5: "\<forall>l\<in>set [''git add a'', ''git commit -m x'']. \<not> is_fence l" by code_simp
  have 6: "strip (join [CHR 0x0A] [''git add a'', ''git commit -m x''])
      = ''git add a\<newline>git commit -m x''"
    by code_simp
  show ?thesis
    using extract_bash_block_unclosed [OF 1 2 3 4 5] 6 by simp
qed

section \<open>Properties of the parser\<close>

lemma parse_loop_filter:
  "parse_loop ls acc = acc @ filter kept (map strip ls)"
  by (induction ls arbitrary: acc) (simp_all add: Let_def kept_def)

text \<open>
  C8. Every command the parser returns begins with the invocation prefix, \<open>git\<close>
  followed by a space.
\<close>

theorem parse_commands_prefix:
  "\<forall>c\<in>set (parse_commands cmd_block). startswith c ''git ''"
  by (simp add: parse_commands_def parse_loop_filter kept_def)

theorem parse_commands_prefix_witness:
  "parse_commands ''git add a.txt\<newline># note\<newline>ls -la'' = [''git add a.txt'']
   \<and> startswith ''git add a.txt'' ''git ''"
proof -
  have 1: "parse_commands ''git add a.txt\<newline># note\<newline>ls -la'' = [''git add a.txt'']"
    by code_simp
  show ?thesis
    using parse_commands_prefix [of "''git add a.txt\<newline># note\<newline>ls -la''"] 1 by simp
qed

text \<open>
  C2, as stated, reads the conditions off the lines of the block as they stand. The block
  below is what the extractor returns for a response with one bash block; both its lines
  are non-empty, are not comments and start with the invocation prefix, yet the parser
  returns one command, because the first line is the bare prefix once trimmed.
\<close>

theorem parse_commands_raw_lines_counterexample:
  "extract_bash_block ''```bash\<newline>git \<newline>git add a.txt\<newline>```'' = ''git \<newline>git add a.txt''
   \<and> splitlines ''git \<newline>git add a.txt'' = [''git '', ''git add a.txt'']
   \<and> list_all (\<lambda>l. l \<noteq> [] \<and> \<not> startswith l ''#'' \<and> startswith l ''git '')
        (splitlines ''git \<newline>git add a.txt'')
   \<and> parse_commands ''git \<newline>git add a.txt'' = [''git add a.txt'']"
  by code_simp

text \<open>
  C2, amended. The parser trims every line first and returns, in the original order,
  exactly the trimmed lines that are non-empty, do not start with \<open>#\<close> and start with the
  invocation prefix; every other line is left out, wherever it stands. So a block whose N
  lines all are, once trimmed, non-empty, not comments and prefixed parses to exactly these
  N trimmed lines in their order; and the block of the two lines \<open>git add a.txt\<close> and
  \<open>git commit -m "feat: add a"\<close> parses to these two commands in this order.
\<close>

theorem parse_commands_trimmed:
  \<open>parse_commands cmd_block = filter kept (map strip (splitlines cmd_block))
   \<and> ((\<forall>l\<in>set (splitlines cmd_block). kept (strip l)) \<longrightarrow>
        parse_commands cmd_block = map strip (splitlines cmd_block)
        \<and> length (parse_commands cmd_block) = length (splitlines cmd_block))
   \<and> parse_commands ''git add a.txt\<newline>git commit -m "feat: add a"''
        = [''git add a.txt'', ''git commit -m "feat: add a"'']\<close>
proof -
  have 1: "parse_commands cmd_block = filter kept (map strip (splitlines cmd_block))"
    by (simp add: parse_commands_def parse_loop_filter)
  have 2: "filter kept (map strip ls) = map strip ls" if "\<forall>l\<in>set ls. kept (strip l)" for ls
    using that by (induction ls) simp_all
  have 3: \<open>parse_commands ''git add a.txt\<newline>git commit -m "feat: add a"''
        = [''git add a.txt'', ''git commit -m "feat: add a"'']\<close>
    by code_simp
  show ?thesis using 1 2 3 by simp
qed

theorem parse_commands_trimmed_witness:
  "list_all (\<lambda>l. kept (strip l)) (splitlines ''git add a.txt  \<newline>  git commit -m x'')
   \<and> parse_commands ''git add a.txt  \<newline>  git commit -m x''
       = [''git add a.txt'', ''git commit -m x'']
   \<and> length (parse_commands ''git add a.txt  \<newline>  git commit -m x'') = 2"
proof -
  have h: "\<forall>l\<in>set (splitlines ''git add a.txt  \<newline>  git commit -m x''). kept (strip l)"
    by code_simp
  have 1: "list_all (\<lambda>l. kept (strip l)) (splitlines ''git add a.txt  \<newline>  git commit -m x'')"
    by code_simp
  have 2: "map strip (splitlines ''git add a.txt  \<newline>  git commit -m x'')
      = [''git add a.txt'', ''git commit -m x'']"
    by code_simp
  have 3: "length (splitlines ''git add a.txt  \<newline>  git commit -m x'') = 2"
    by code_simp
  have "parse_commands ''git add a.txt  \<newline>  git commit -m x''
          = map strip (splitlines ''git add a.txt  \<newline>  git commit -m x'')
        \<and> length (parse_commands ''git add a.txt  \<newline>  git commit -m x'')
          = length (splitlines ''git add a.txt  \<newline>  git commit -m x'')"
    using parse_commands_trimmed [of "''git add a.txt  \<newline>  git commit -m x''"] h by blast
  then have "parse_commands ''git add a.txt  \<newline>  git commit -m x''
          = [''git add a.txt'', ''git commit -m x'']
        \<and> length (parse_commands ''git add a.txt  \<newline>  git commit -m x'') = 2"
    by (simp add: 2 3)
  with 1 show ?thesis by blast
qed

section \<open>Properties of the executor\<close>

lemma spawned_append: "spawned (xs @ ys) = spawned xs @ spawned ys"
  by (induction xs rule: spawned.induct) simp_all

lemma requested_append: "requested (xs @ ys) = requested xs @ requested ys"
  by (induction xs rule: requested.induct) simp_all

lemma trace_emit: "trace (emit e s) = trace s @ [e]"
  by (simp add: emit_def)

lemma world_emit: "world (emit e s) = world s"
  by (simp add: emit_def)

lemma fold_print_world: "world (fold (\<lambda>cmd. emit (Print (f cmd))) cmds s) = world s"
  by (induction cmds arbitrary: s) (simp_all add: world_emit)

lemma fold_print_trace:
  "trace (fold (\<lambda>cmd. emit (Print (f cmd))) cmds s) = trace s @ map (\<lambda>cmd. Print (f cmd)) cmds"
  by (induction cmds arbitrary: s) (simp_all add: trace_emit)

lemma spawned_prints: "spawned (map (\<lambda>c. Print (f c)) cmds) = []"
  by (induction cmds) simp_all









text \<open>
  C4, as stated, has the executor print the commands and a dry-run notice for every
  command list. For the empty list it prints one line, that the model produced no
  commands, and no dry-run notice.
\<close>

theorem run_commands_dry_run_empty_counterexample:
  "trace (snd (run_commands (scripted_env None) [] False \<lparr>world = ([], []), trace = []\<rparr>))
     = [Print ''gitmeup: no git commands produced by the model.\<newline>'']
   \<and> Print ''Dry run. Re-run with --apply to execute these commands.\<newline>''
       \<notin> set (trace (snd (run_commands (scripted_env None) [] False
                 \<lparr>world = ([], []), trace = []\<rparr>)))"
  by code_simp

text \<open>
  C4, amended. For every command list, when the apply flag is false the executor starts
  no process and leaves the world as it is, returns normally, and only writes to the
  standard output: for a non-empty list the heading, the commands one per line, an empty
  line and the dry-run notice; for the empty list the one line saying that no commands
  were produced.
\<close>

theorem run_commands_dry_run:
  "fst (run_commands E commands False s) = Inr ()
   \<and> world (snd (run_commands E commands False s)) = world s
   \<and> spawned (trace (snd (run_commands E commands False s))) = spawned (trace s)
   \<and> trace (snd (run_commands E commands False s)) = trace s @ map Print
       (if commands = [] then [py_print [''gitmeup: no git commands produced by the model.'']]
        else py_print [''gitmeup proposed commands:\<newline>'']
             # map (\<lambda>cmd. py_print [cmd]) commands
             @ [py_print [], py_print [''Dry run. Re-run with --apply to execute these commands.'']])"
  by (simp add: run_commands_def Let_def trace_emit world_emit fold_print_trace fold_print_world
      spawned_append spawned_prints comp_def)

section \<open>Properties of the whole run\<close>

lemma run_git_requested:
  "requested (trace (snd (run_git E args check s))) = requested (trace s)"
  by (simp add: run_git_def Let_def trace_emit requested_append split: prod.splits)

lemma ensure_repo_requested:
  "requested (trace (snd (ensure_repo E s))) = requested (trace s)"
proof (cases "run_git E [''rev-parse'', ''--is-inside-work-tree''] True s")
  case (Pair r s1)
  with run_git_requested [of E "[''rev-parse'', ''--is-inside-work-tree'']" True s]
  have "requested (trace s1) = requested (trace s)" by simp
  with Pair show ?thesis
    by (cases r) (simp_all add: ensure_repo_def trace_emit requested_append)
qed

text \<open>
  C5, as stated, promises exit code 0 for every run on a clean tree. In the first run
  below the tree is clean and the credential is missing: the run exits with 1 before it
  looks at the tree. In the second the porcelain status command prints nothing and fails:
  the run exits with git's code 128.
\<close>

theorem main_clean_tree_counterexample:
  "stdout (fst (subprocess_run (scripted_env None) (clean_repo, [])
             [''git'', ''status'', ''--porcelain''])) = []
   \<and> fst (main (scripted_env None)
            \<lparr>model = ''gpt-4.1-mini'', apply_flag = False, api_key = None\<rparr>
            \<lparr>world = (clean_repo, []), trace = []\<rparr>) = Inl (SystemExit 1)
   \<and> stdout (fst (subprocess_run (scripted_env None) (broken_index, [])
             [''git'', ''status'', ''--porcelain''])) = []
   \<and> fst (main (scripted_env None)
            \<lparr>model = ''gpt-4.1-mini'', apply_flag = False, api_key = Some ''sk-1''\<rparr>
            \<lparr>world = (broken_index, []), trace = []\<rparr>) = Inl (SystemExit 128)"
  by code_simp

text \<open>
  C5, amended. For every run that has a non-empty credential, passes the repository check
  and whose porcelain status command exits with 0 and prints nothing but whitespace, the
  program sends no request to the model service and exits with code 0.
\<close>

theorem main_clean_tree:
  assumes "api_key a = Some key"
    and "key \<noteq> []"
    and "ensure_repo E s = (Inr (), s1)"
    and "run_git E [''status'', ''--porcelain''] True s1 = (Inr porcelain, s2)"
    and "strip porcelain = []"
  shows "fst (main E a s) = Inl (SystemExit 0)
       \<and> exit_code (fst (main E a s)) = 0
       \<and> requested (trace (snd (main E a s))) = requested (trace s)"
proof -
  have m: "main E a s =
      (Inl (SystemExit 0), emit (Print (py_print [''Working tree clean. Nothing to commit.''])) s2)"
    using assms by (simp add: main_def request_phase_def)
  have "requested (trace s1) = requested (trace s)"
    using ensure_repo_requested [of E s] assms(3) by simp
  moreover have "requested (trace s2) = requested (trace s1)"
    using run_git_requested [of E "[''status'', ''--porcelain'']" True s1] assms(4) by simp
  ultimately show ?thesis
    by (simp add: m exit_code_def trace_emit requested_append)
qed

theorem main_clean_tree_witness:
  "fst (main (scripted_env (Some ''unused''))
          \<lparr>model = ''gpt-4.1-mini'', apply_flag = False, api_key = Some ''sk-1''\<rparr>
          \<lparr>world = (clean_repo, []), trace = []\<rparr>) = Inl (SystemExit 0)
   \<and> requested (trace (snd (main (scripted_env (Some ''unused''))
          \<lparr>model = ''gpt-4.1-mini'', apply_flag = False, api_key = Some ''sk-1''\<rparr>
          \<lparr>world = (clean_repo, []), trace = []\<rparr>))) = []"
proof -
  let ?E = "scripted_env (Some ''unused'') :: scripted_world env"
  let ?a = "\<lparr>model = ''gpt-4.1-mini'', apply_flag = False, api_key = Some ''sk-1''\<rparr>"
  let ?s = "\<lparr>world = (clean_repo, []), trace = []\<rparr> :: scripted_world state"
  let ?s1 = "\<lparr>world = (clean_repo, [[''git'', ''rev-parse'', ''--is-inside-work-tree'']]),
             trace = [Spawn [''git'', ''rev-parse'', ''--is-inside-work-tree'']]\<rparr> :: scripted_world state"
  let ?s2 = "\<lparr>world = (clean_repo, [[''git'', ''rev-parse'', ''--is-inside-work-tree''],
                                     [''git'', ''status'', ''--porcelain'']]),
             trace = [Spawn [''git'', ''rev-parse'', ''--is-inside-work-tree''],
                      Spawn [''git'', ''status'', ''--porcelain'']]\<rparr> :: scripted_world state"
  have 1: "api_key ?a = Some ''sk-1''" by simp
  have 2: "''sk-1'' \<noteq> []" by simp
  have 3: "ensure_repo ?E ?s = (Inr (), ?s1)" by code_simp
  have 4: "run_git ?E [''status'', ''--porcelain''] True ?s1 = (Inr [], ?s2)" by code_simp
  have 5: "strip [] = []" by code_simp
  have 6: "requested (trace ?s) = []" by simp
  from main_clean_tree [OF 1 2 3 4 5] show ?thesis
    by (simp only: 6)
qed

text \<open>
  C7. Outside a repository git answers the repository check with exit code 128 and an
  error message. \<open>run_git\<close> is called with \<open>check\<close> set, so the run ends there with
  git's code 128; the message and the exit code 1 of \<open>ensure_repo\<close> are not reached.
\<close>

theorem main_outside_repository:
  "main (scripted_env None)
     \<lparr>model = ''gpt-4.1-mini'', apply_flag = False, api_key = Some ''sk-1''\<rparr>
     \<lparr>world = (outside_repo, []), trace = []\<rparr>
   = (Inl (SystemExit 128),
      \<lparr>world = (outside_repo, [[''git'', ''rev-parse'', ''--is-inside-work-tree'']]),
       trace = [Spawn [''git'', ''rev-parse'', ''--is-inside-work-tree''],
                PrintErr ''Error running git rev-parse --is-inside-work-tree:\<newline>fatal: not a git repository (or any of the parent directories): .git\<newline>\<newline>'']\<rparr>)"
  by code_simp

lemma first_fence_opens:
  "dropWhile (\<lambda>l. \<not> is_fence l) ls = fence # body \<Longrightarrow> fence \<in> set (opening_fences False ls)"
  by (induction ls) (auto split: if_splits)

lemma extract_no_accepted_block:
  assumes "\<forall>f\<in>set (opening_fences False (splitlines response)). \<not> accepted_tag (fence_tag f)"
  shows "extract_bash_block response = []"
proof (cases "dropWhile (\<lambda>l. \<not> is_fence l) (splitlines response)")
  case Nil
  then show ?thesis
    by (simp add: extract_bash_block_def extract_loop_outside strip_Nil
        del: dropWhile_eq_Nil_conv)
next
  case (Cons fence body)
  with assms first_fence_opens have "\<not> accepted_tag (fence_tag fence)" by blast
  with Cons show ?thesis
    by (simp add: extract_bash_block_def extract_loop_outside extract_loop_rejected strip_Nil)
qed

text \<open>
  C6. For every response of the model in which no fenced block has an accepted tag (no
  opening fence line is tagged empty, bash, sh or shell), the extractor returns the empty
  string, and the run writes the failure to the error stream, echoes the raw response on
  the standard output and ends in \<open>sys.exit(1)\<close>.
\<close>

theorem main_extraction_failure:
  assumes "request_phase E a s = (Inr response, s1)"
    and "\<forall>f\<in>set (opening_fences False (splitlines response)). \<not> accepted_tag (fence_tag f)"
  shows "extract_bash_block response = []
       \<and> main E a s =
           (Inl (SystemExit 1),
            emit (Print (py_print [''Raw output:\<newline>'', response]))
              (emit (PrintErr (py_print
                 [''gitmeup: failed to extract bash command block from model output.''])) s1))
       \<and> exit_code (fst (main E a s)) = 1"
proof -
  have e: "extract_bash_block response = []"
    using assms(2) by (rule extract_no_accepted_block)
  then have m: "main E a s =
           (Inl (SystemExit 1),
            emit (Print (py_print [''Raw output:\<newline>'', response]))
              (emit (PrintErr (py_print
                 [''gitmeup: failed to extract bash command block from model output.''])) s1))"
    using assms(1) by (simp add: main_def response_phase_def)
  show ?thesis
    using e by (simp add: m exit_code_def)
qed

theorem main_extraction_failure_witness:
  "extract_bash_block ''Sorry.\<newline>```python\<newline>print(1)\<newline>```'' = []
   \<and> exit_code (fst (main (scripted_env (Some ''Sorry.\<newline>```python\<newline>print(1)\<newline>```''))
          \<lparr>model = ''gpt-4.1-mini'', apply_flag = True, api_key = Some ''sk-1''\<rparr>
          \<lparr>world = (dirty_repo, []), trace = []\<rparr>)) = 1"
proof -
  let ?R = "''Sorry.\<newline>```python\<newline>print(1)\<newline>```''"
  let ?E = "scripted_env (Some ?R) :: scripted_world env"
  let ?a = "\<lparr>model = ''gpt-4.1-mini'', apply_flag = True, api_key = Some ''sk-1''\<rparr>"
  let ?s = "\<lparr>world = (dirty_repo, []), trace = []\<rparr> :: scripted_world state"
  have "fst (request_phase ?E ?a ?s) = Inr ?R" by code_simp
  then have 1: "request_phase ?E ?a ?s = (Inr ?R, snd (request_phase ?E ?a ?s))"
    by (metis prod.collapse)
  have 2: "\<forall>f\<in>set (opening_fences False (splitlines ?R)). \<not> accepted_tag (fence_tag f)"
    by code_simp
  from main_extraction_failure [OF 1 2] show ?thesis by blast
qed

text \<open>
  C9. For every response of the model: when the extracted block is not empty and no
  command is parsed from it, the executor prints that no commands were produced and
  returns without error, and the run goes on to its end and returns (exit code 0); when
  the extracted block is empty the run ends in \<open>sys.exit(1)\<close>.
\<close>

theorem main_empty_command_list:
  assumes "request_phase E a s = (Inr response, s1)"
  shows "(extract_bash_block response \<noteq> []
            \<and> parse_commands (extract_bash_block response) = []
          \<longrightarrow> run_commands E (parse_commands (extract_bash_block response)) (apply_flag a) s1
                = (Inr (), emit (Print (py_print
                     [''gitmeup: no git commands produced by the model.''])) s1)
            \<and> fst (main E a s) = Inr ()
            \<and> exit_code (fst (main E a s)) = 0
            \<and> Print (py_print [''gitmeup: no git commands produced by the model.''])
                \<in> set (trace (snd (main E a s))))
       \<and> (extract_bash_block response = []
          \<longrightarrow> fst (main E a s) = Inl (SystemExit 1)
            \<and> exit_code (fst (main E a s)) = 1)"
proof (intro conjI impI)
  assume h: "extract_bash_block response \<noteq> [] \<and> parse_commands (extract_bash_block response) = []"
  let ?s2 = "emit (Print (py_print [''gitmeup: no git commands produced by the model.''])) s1"
  show r: "run_commands E (parse_commands (extract_bash_block response)) (apply_flag a) s1
        = (Inr (), ?s2)"
    using h by (simp add: run_commands_def)
  have m: "main E a s = response_phase E a response s1"
    using assms by (simp add: main_def)
  have g: "fst (run_git E args False t) = Inr (stdout (fst (subprocess_run E (world t) args')))
         \<and> trace (snd (run_git E args False t)) = trace t @ [Spawn args']"
    if "args' = ''git'' # args" for args args' t
    using that by (simp add: run_git_def Let_def trace_emit split: prod.splits)
  obtain r2 s3 where rg: "run_git E [''status'', ''-sb''] False
      (emit (Print (py_print [''\<newline>Final git status:\<newline>''])) ?s2) = (r2, s3)"
    by (cases "run_git E [''status'', ''-sb''] False
      (emit (Print (py_print [''\<newline>Final git status:\<newline>''])) ?s2)")
  from g [OF refl, of "[''status'', ''-sb'']"
      "emit (Print (py_print [''\<newline>Final git status:\<newline>''])) ?s2"] rg
  obtain final where r2: "r2 = Inr final"
    and t3: "trace s3 = trace s1 @ [Print (py_print [''gitmeup: no git commands produced by the model.'']),
         Print (py_print [''\<newline>Final git status:\<newline>'']), Spawn [''git'', ''status'', ''-sb'']]"
    by (simp add: trace_emit)
  have p: "response_phase E a response s1 =
      (Inr (), emit (Print (py_print [''  git log --oneline --graph --decorate -n 10'']))
                   (emit (Print (py_print [''Review your history with:'']))
                      (emit (Print (py_print [final])) s3)))"
    using h r rg r2 by (simp add: response_phase_def)
  show "fst (main E a s) = Inr ()" by (simp add: m p)
  show "exit_code (fst (main E a s)) = 0" by (simp add: m p exit_code_def)
  show "Print (py_print [''gitmeup: no git commands produced by the model.''])
          \<in> set (trace (snd (main E a s)))"
    by (simp add: m p trace_emit t3)
next
  assume "extract_bash_block response = []"
  then have "main E a s =
           (Inl (SystemExit 1),
            emit (Print (py_print [''Raw output:\<newline>'', response]))
              (emit (PrintErr (py_print
                 [''gitmeup: failed to extract bash command block from model output.''])) s1))"
    using assms by (simp add: main_def response_phase_def)
  then show "fst (main E a s) = Inl (SystemExit 1)" and "exit_code (fst (main E a s)) = 1"
    by (simp_all add: exit_code_def)
qed

theorem main_empty_command_list_witness:
  "exit_code (fst (main (scripted_env (Some ''```bash\<newline>ls -la\<newline>```''))
          \<lparr>model = ''gpt-4.1-mini'', apply_flag = True, api_key = Some ''sk-1''\<rparr>
          \<lparr>world = (dirty_repo, []), trace = []\<rparr>)) = 0
   \<and> exit_code (fst (main (scripted_env (Some ''```bash\<newline>```''))
          \<lparr>model = ''gpt-4.1-mini'', apply_flag = True, api_key = Some ''sk-1''\<rparr>
          \<lparr>world = (dirty_repo, []), trace = []\<rparr>)) = 1"
proof -
  let ?R = "''```bash\<newline>ls -la\<newline>```''"
  let ?Q = "''```bash\<newline>```''"
  let ?a = "\<lparr>model = ''gpt-4.1-mini'', apply_flag = True, api_key = Some ''sk-1''\<rparr>"
  let ?s = "\<lparr>world = (dirty_repo, []), trace = []\<rparr> :: scripted_world state"
  have "fst (request_phase (scripted_env (Some ?R)) ?a ?s) = Inr ?R" by code_simp
  then have 1: "request_phase (scripted_env (Some ?R)) ?a ?s
      = (Inr ?R, snd (request_phase (scripted_env (Some ?R)) ?a ?s))"
    by (metis prod.collapse)
  have 2: "extract_bash_block ?R \<noteq> [] \<and> parse_commands (extract_bash_block ?R) = []"
    by code_simp
  have "fst (request_phase (scripted_env (Some ?Q)) ?a ?s) = Inr ?Q" by code_simp
  then have 3: "request_phase (scripted_env (Some ?Q)) ?a ?s
      = (Inr ?Q, snd (request_phase (scripted_env (Some ?Q)) ?a ?s))"
    by (metis prod.collapse)
  have 4: "extract_bash_block ?Q = []" by code_simp
  from main_empty_command_list [OF 1] 2
  have a: "exit_code (fst (main (scripted_env (Some ?R)) ?a ?s)) = 0" by blast
  from main_empty_command_list [OF 3] 4
  have b: "exit_code (fst (main (scripted_env (Some ?Q)) ?a ?s)) = 1" by blast
  from a b show ?thesis by (rule conjI)
qed

end
